theory Spec2Isabelle
  imports Main "HOL-Library.Sublist"
begin

section \<open>The shared Cloudflare API client (scripts/utils)\<close>

text \<open>
  The client is the part of the repository with control flow of its own: configuration
  loading, one authenticated request, the retry loop and the error-to-message mapping.
  JavaScript is modelled as follows.
  \<^item> A thrown exception is the \<open>Inl\<close> side of a sum; a returned value is \<open>Inr\<close>.
  \<^item> An \<open>async\<close> function is the sequential function its \<open>await\<close>s describe.
  \<^item> \<open>process.env\<close>, the calls to \<open>fetch\<close> and the calls to \<open>sleep\<close> are the
    fields of an explicit \<open>world\<close> that every operation takes and returns.
  \<^item> What \<open>fetch\<close> answers, \<open>JSON.stringify\<close> and \<open>URLSearchParams\<close> belong to
    the platform and are parameters (\<open>runtime\<close>).
  \<^item> Numbers are the integers they hold (retry counts, delays, status codes); the loop
    counter \<open>attempt\<close>, which starts at 1 and only grows, is a natural number.
\<close>

subsection \<open>Values\<close>

text \<open>
  A JavaScript value as a caller can hand it over as request body, and as the opaque
  \<open>result\<close> payload of a response; \<open>JUndefined\<close> is an absent property.
\<close>

datatype jsval =
    JUndefined
  | JNull
  | JBool bool
  | JNum int
  | JStr string
  | JArr "jsval list"
  | JObj "(string \<times> jsval) list"

text \<open>ToBoolean: what \<open>if (v)\<close> and \<open>!v\<close> test.\<close>

fun truthy :: "jsval \<Rightarrow> bool" where
  "truthy JUndefined = False"
| "truthy JNull = False"
| "truthy (JBool b) = b"
| "truthy (JNum n) = (n \<noteq> 0)"
| "truthy (JStr s) = (s \<noteq> [])"
| "truthy (JArr _) = True"
| "truthy (JObj _) = True"

text \<open>One entry of the \<open>errors\<close> array of a response: \<open>{code, message}\<close>.\<close>

record api_error =
  code :: int
  message :: string

text \<open>
  The decoded response body \<open>{ success, result, errors }\<close>, typed as the API sends
  it: an object whose \<open>success\<close> is a boolean and whose \<open>errors\<close> is an array of
  such entries. A property that the body does not have is \<open>None\<close> (\<open>JUndefined\<close>
  for the payload), so that \<open>!data.success\<close> is \<open>success data \<noteq> Some True\<close> and
  \<open>data.errors || []\<close> is the array, or \<open>[]\<close> for \<open>None\<close>.
\<close>

record envelope =
  success :: "bool option"
  result :: jsval
  errors :: "api_error list option"

subsection \<open>Errors\<close>

text \<open>
  \<open>Error msg\<close> is a plain \<open>new Error(msg)\<close>; \<open>CloudflareApiError msg statusCode errors\<close>
  is the class of that name. Its constructor stores \<open>errors || []\<close>, which is \<open>errors\<close>
  itself for every array.
\<close>

datatype js_error =
    Error string
  | CloudflareApiError string int "api_error list"

text \<open>
  \<open>getUserMessage\<close>, default branch: the loop that appends one line per entry to the
  message.
\<close>

definition api_errors_listing :: "string \<Rightarrow> api_error list \<Rightarrow> string" where
  "api_errors_listing msg es =
     (if length es > 0
      then foldl (\<lambda>acc e. acc @ ''\<newline>  - '' @ message e) (msg @ ''\<newline>\<newline>API Errors:'') es
      else msg)"

definition auth_guidance :: string where
  "auth_guidance =
     ''Authentication failed. Your API key may be invalid or lack required permissions.\<newline>\<newline>'' @
     ''Solutions:\<newline>'' @
     ''1. Verify CLOUDFLARE_API_KEY in .env is correct\<newline>'' @
     ''2. Run: node scripts/validate-api-key.js\<newline>'' @
     ''3. Update token permissions at: https://dash.cloudflare.com/profile/api-tokens''"

definition rate_limit_guidance :: string where
  "rate_limit_guidance =
     ''Rate limit exceeded. Too many requests to Cloudflare API.\<newline>\<newline>'' @
     ''Solution: Wait a moment and try again. The script will retry automatically.''"

definition not_found_guidance :: string where
  "not_found_guidance =
     ''Resource not found. The requested resource may not exist or may have been deleted.\<newline>\<newline>'' @
     ''Solution: Verify the resource name/ID and try again.''"

definition server_error_guidance :: string where
  "server_error_guidance =
     ''Cloudflare API server error. This is a temporary issue on Cloudflare's side.\<newline>\<newline>'' @
     ''Solution: Wait a moment and try again.''"

text \<open>\<open>CloudflareApiError.getUserMessage\<close>; it exists on that class only.\<close>

fun getUserMessage :: "string \<Rightarrow> int \<Rightarrow> api_error list \<Rightarrow> string" where
  "getUserMessage msg statusCode es =
     (if statusCode = 401 \<or> statusCode = 403 then auth_guidance
      else if statusCode = 429 then rate_limit_guidance
      else if statusCode = 404 then not_found_guidance
      else if statusCode \<ge> 500 then server_error_guidance
      else api_errors_listing msg es)"

subsection \<open>Configuration\<close>

record config =
  apiKey :: string
  accountId :: "string option"
  email :: "string option"

definition missing_key_message :: string where
  "missing_key_message =
     ''CLOUDFLARE_API_KEY not found in environment\<newline>\<newline>'' @
     ''Solution: Create .env file in project root:\<newline>'' @
     ''  echo '' @ [CHR 0x22] @ ''CLOUDFLARE_API_KEY=your_token_here'' @ [CHR 0x22] @ '' > .env\<newline>\<newline>'' @
     ''Get your API token at: https://dash.cloudflare.com/profile/api-tokens''"

text \<open>
  \<open>loadConfig\<close> reads \<open>process.env\<close>, a map from names to strings. \<open>!apiKey\<close> holds
  for an unset variable and for the empty string.
\<close>

definition loadConfig :: "(string \<rightharpoonup> string) \<Rightarrow> js_error + config" where
  "loadConfig environ =
     (case environ ''CLOUDFLARE_API_KEY'' of
        None \<Rightarrow> Inl (Error missing_key_message)
      | Some k \<Rightarrow>
          if k = [] then Inl (Error missing_key_message)
          else Inr \<lparr> apiKey = k,
                     accountId = environ ''CLOUDFLARE_ACCOUNT_ID'',
                     email = environ ''CLOUDFLARE_EMAIL'' \<rparr>)"

subsection \<open>One request\<close>

text \<open>
  The \<open>options\<close> argument of \<open>makeApiRequest\<close>; \<open>None\<close> is a property left out, and
  \<open>http_method\<close> is its property \<open>method\<close>.
\<close>

record options =
  http_method :: "string option"
  body :: jsval
  headers :: "(string \<rightharpoonup> string) option"
  queryParams :: "(string \<times> string) list option"

text \<open>What is handed to \<open>fetch\<close> beside the URL.\<close>

record requestOptions =
  req_method :: string
  req_headers :: "string \<rightharpoonup> string"
  req_body :: "string option"

text \<open>
  A response: its status line and what \<open>response.json()\<close> gives, \<open>Inl\<close> with the
  parser's message when the body is not JSON.
\<close>

record response =
  status :: int
  statusText :: string
  json :: "string + envelope"

text \<open>\<open>response.ok\<close> is, by the Fetch standard, a status from 200 to 299.\<close>

definition ok :: "response \<Rightarrow> bool" where
  "ok r \<longleftrightarrow> 200 \<le> status r \<and> status r \<le> 299"

datatype fetch_outcome =
    Rejected string
  | Resolved response

text \<open>
  The platform. \<open>fetch n url opts\<close> is the outcome of the call of \<open>fetch\<close> that comes
  after \<open>n\<close> earlier ones; a rejection carries the message of the error thrown.
\<close>

record runtime =
  fetch :: "nat \<Rightarrow> string \<Rightarrow> requestOptions \<Rightarrow> fetch_outcome"
  JSON_stringify :: "jsval \<Rightarrow> string"
  URLSearchParams_toString :: "(string \<times> string) list \<Rightarrow> string"

text \<open>
  The world: the environment, the requests sent so far, the waits made so far, and, as a
  history variable, what each invocation of \<open>makeApiRequest\<close> ended with. The line
  that the retry loop prints before a wait is not part of it.
\<close>

record world =
  env :: "string \<rightharpoonup> string"
  requests :: "(string \<times> requestOptions) list"
  slept :: "int list"
  attempts :: "(js_error + envelope) list"

definition CLOUDFLARE_API_BASE :: string where
  "CLOUDFLARE_API_BASE = ''https://api.cloudflare.com/client/v4''"

definition build_url :: "runtime \<Rightarrow> string \<Rightarrow> options \<Rightarrow> string" where
  "build_url rt endpoint opts =
     (let params = URLSearchParams_toString rt
                     (case queryParams opts of None \<Rightarrow> [] | Some q \<Rightarrow> q)
      in CLOUDFLARE_API_BASE @ endpoint @ (if params \<noteq> [] then ''?'' @ params else []))"

definition build_requestOptions :: "runtime \<Rightarrow> config \<Rightarrow> options \<Rightarrow> requestOptions" where
  "build_requestOptions rt cfg opts =
     (let m = (case http_method opts of None \<Rightarrow> ''GET'' | Some m \<Rightarrow> m);
          hs = (case headers opts of None \<Rightarrow> Map.empty | Some h \<Rightarrow> h)
      in \<lparr> req_method = m,
           req_headers = [''Authorization'' \<mapsto> ''Bearer '' @ apiKey cfg,
                          ''Content-Type'' \<mapsto> ''application/json''] ++ hs,
           req_body =
             (if truthy (body opts) \<and> m \<noteq> ''GET''
              then (case body opts of
                      JStr s \<Rightarrow> Some s
                    | v \<Rightarrow> Some (JSON_stringify rt v))
              else None) \<rparr>)"

text \<open>
  The \<open>try\<close> block of \<open>makeApiRequest\<close>: everything thrown in it that is not a
  \<open>CloudflareApiError\<close> leaves as \<open>Error\<close> with the prefix \<open>Network error:\<close>.
\<close>

definition handle_response :: "fetch_outcome \<Rightarrow> js_error + envelope" where
  "handle_response out =
     (case out of
        Rejected msg \<Rightarrow> Inl (Error (''Network error: '' @ msg))
      | Resolved r \<Rightarrow>
          (case json r of
             Inl msg \<Rightarrow> Inl (Error (''Network error: '' @ msg))
           | Inr data \<Rightarrow>
               if \<not> ok r then
                 Inl (CloudflareApiError (''API request failed: '' @ statusText r) (status r)
                        (case errors data of None \<Rightarrow> [] | Some es \<Rightarrow> es))
               else if success data \<noteq> Some True then
                 Inl (CloudflareApiError ''API returned success: false'' (status r)
                        (case errors data of None \<Rightarrow> [] | Some es \<Rightarrow> es))
               else Inr data))"

text \<open>
  \<open>makeApiRequest\<close>. \<open>loadConfig\<close> is called before the \<open>try\<close> block, so its error
  leaves unchanged and no request is sent. The last step records the outcome.
\<close>

definition makeApiRequest ::
  "runtime \<Rightarrow> string \<Rightarrow> options \<Rightarrow> world \<Rightarrow> (js_error + envelope) \<times> world" where
  "makeApiRequest rt endpoint opts w =
     (case loadConfig (env w) of
        Inl e \<Rightarrow> (Inl e, w\<lparr>attempts := attempts w @ [Inl e]\<rparr>)
      | Inr cfg \<Rightarrow>
          (let url = build_url rt endpoint opts;
               ro = build_requestOptions rt cfg opts;
               res = handle_response (fetch rt (length (requests w)) url ro)
           in (res, w\<lparr>requests := requests w @ [(url, ro)],
                       attempts := attempts w @ [res]\<rparr>)))"

subsection \<open>The retry loop\<close>

record retryOptions =
  maxAttempts :: "int option"
  baseDelay :: "int option"
  maxDelay :: "int option"

definition sleep :: "int \<Rightarrow> world \<Rightarrow> world" where
  "sleep ms w = w\<lparr>slept := slept w @ [ms]\<rparr>"

text \<open>\<open>error instanceof CloudflareApiError\<close>\<close>

fun is_CloudflareApiError :: "js_error \<Rightarrow> bool" where
  "is_CloudflareApiError (CloudflareApiError _ _ _) = True"
| "is_CloudflareApiError (Error _) = False"

text \<open>The test under \<open>Don't retry on client errors (4xx except 429)\<close>.\<close>

fun client_error :: "js_error \<Rightarrow> bool" where
  "client_error (CloudflareApiError _ statusCode _) =
     (statusCode \<ge> 400 \<and> statusCode < 500 \<and> statusCode \<noteq> 429)"
| "client_error (Error _) = False"

text \<open>\<open>Math.min(baseDelay * Math.pow(2, attempt - 1), maxDelay)\<close>\<close>

definition backoff_delay :: "int \<Rightarrow> int \<Rightarrow> nat \<Rightarrow> int" where
  "backoff_delay base cap attempt = min (base * 2 ^ (attempt - 1)) cap"

text \<open>The statement after the loop: \<open>throw lastError || new Error(...)\<close>.\<close>

definition throw_lastError :: "js_error option \<Rightarrow> world \<Rightarrow> (js_error + envelope) \<times> world" where
  "throw_lastError lastError w =
     (case lastError of
        Some e \<Rightarrow> (Inl e, w)
      | None \<Rightarrow> (Inl (Error ''All retry attempts failed''), w))"

text \<open>
  The \<open>for\<close> loop from the iteration \<open>attempt\<close> on, with the current \<open>lastError\<close>.
  A success returns, a client error is thrown again, the last attempt breaks out of the
  loop, and every other failure waits and goes round.
\<close>

function retry_loop ::
  "runtime \<Rightarrow> string \<Rightarrow> options \<Rightarrow> int \<Rightarrow> int \<Rightarrow> int \<Rightarrow> nat \<Rightarrow> js_error option \<Rightarrow> world
   \<Rightarrow> (js_error + envelope) \<times> world" where
  "retry_loop rt endpoint opts n base cap attempt lastError w =
     (if int attempt \<le> n then
        (case makeApiRequest rt endpoint opts w of
           (Inr data, w') \<Rightarrow> (Inr data, w')
         | (Inl error, w') \<Rightarrow>
             if client_error error then (Inl error, w')
             else if int attempt = n then throw_lastError (Some error) w'
             else retry_loop rt endpoint opts n base cap (attempt + 1) (Some error)
                    (sleep (backoff_delay base cap attempt) w'))
      else throw_lastError lastError w)"
  by pat_completeness auto
termination
  by (relation "measure (\<lambda>(rt, endpoint, opts, n, base, cap, attempt, lastError, w).
                  nat (n + 1 - int attempt))") auto

declare retry_loop.simps [simp del]

text \<open>The destructuring \<open>{ maxAttempts = 3, baseDelay = 1000, maxDelay = 10000 }\<close>.\<close>

definition maxAttempts_of :: "retryOptions \<Rightarrow> int" where
  "maxAttempts_of ropts = (case maxAttempts ropts of None \<Rightarrow> 3 | Some n \<Rightarrow> n)"

definition baseDelay_of :: "retryOptions \<Rightarrow> int" where
  "baseDelay_of ropts = (case baseDelay ropts of None \<Rightarrow> 1000 | Some b \<Rightarrow> b)"

definition maxDelay_of :: "retryOptions \<Rightarrow> int" where
  "maxDelay_of ropts = (case maxDelay ropts of None \<Rightarrow> 10000 | Some c \<Rightarrow> c)"

definition makeApiRequestWithRetry ::
  "runtime \<Rightarrow> string \<Rightarrow> options \<Rightarrow> retryOptions \<Rightarrow> world \<Rightarrow> (js_error + envelope) \<times> world" where
  "makeApiRequestWithRetry rt endpoint opts ropts w =
     retry_loop rt endpoint opts (maxAttempts_of ropts) (baseDelay_of ropts) (maxDelay_of ropts)
       1 None w"

subsection \<open>Vocabulary of the properties\<close>


subsection \<open>Concrete inputs\<close>

text \<open>
  A process with the credential set and nothing sent yet, a \<open>GET\<close> without options,
  and a platform whose \<open>fetch\<close> answers the call number \<open>i\<close> with \<open>answer i\<close>.
\<close>

definition fresh_world :: world where
  "fresh_world = \<lparr> env = [''CLOUDFLARE_API_KEY'' \<mapsto> ''token''],
                   requests = [], slept = [], attempts = [] \<rparr>"

definition no_options :: options where
  "no_options = \<lparr> http_method = None, body = JUndefined, headers = None, queryParams = None \<rparr>"

definition scripted :: "(nat \<Rightarrow> fetch_outcome) \<Rightarrow> runtime" where
  "scripted answer = \<lparr> fetch = (\<lambda>i url ro. answer i),
                        JSON_stringify = (\<lambda>v. ''<json>''),
                        URLSearchParams_toString = (\<lambda>q. []) \<rparr>"

definition json_reply :: "int \<Rightarrow> string \<Rightarrow> envelope \<Rightarrow> response" where
  "json_reply st text data = \<lparr> status = st, statusText = text, json = Inr data \<rparr>"


definition failure_body :: "api_error list \<Rightarrow> envelope" where
  "failure_body es = \<lparr> success = Some False, result = JNull, errors = Some es \<rparr>"

definition success_body :: "jsval \<Rightarrow> envelope" where
  "success_body v = \<lparr> success = Some True, result = v, errors = Some [] \<rparr>"

definition with_body :: "string \<Rightarrow> jsval \<Rightarrow> options" where
  "with_body m v = \<lparr> http_method = Some m, body = v, headers = None, queryParams = None \<rparr>"

text \<open>Scripts for \<open>fetch\<close>.\<close>

definition not_found :: "nat \<Rightarrow> fetch_outcome" where
  "not_found i = Resolved (json_reply 404 ''Not Found'' (failure_body []))"



definition unavailable :: "nat \<Rightarrow> fetch_outcome" where
  "unavailable i = Resolved (json_reply 503 ''Service Unavailable'' (failure_body []))"


definition always_zones :: "nat \<Rightarrow> fetch_outcome" where
  "always_zones i =
     Resolved (json_reply 200 ''OK'' (success_body (JArr [JObj [(''id'', JStr ''z1'')]])))"


definition rate_limited_twice :: "nat \<Rightarrow> fetch_outcome" where
  "rate_limited_twice i =
     (if i < 2 then Resolved (json_reply 429 ''Too Many Requests'' (failure_body []))
      else Resolved (json_reply 200 ''OK'' (success_body (JArr []))))"

section \<open>Properties\<close>

subsection \<open>One request: what it changes\<close>

lemma makeApiRequest_world:
  assumes "makeApiRequest rt endpoint opts w = (r, w')"
  shows "env w' = env w" and "slept w' = slept w" and "attempts w' = attempts w @ [r]"
  using assms by (auto simp: makeApiRequest_def Let_def split: sum.splits)

lemma makeApiRequest_sent:
  assumes "makeApiRequest rt endpoint opts w = (r, w')"
      and "r = Inr data \<or> (r = Inl e \<and> is_CloudflareApiError e)"
  shows "\<exists>cfg. loadConfig (env w) = Inr cfg \<and>
           requests w' = requests w @ [(build_url rt endpoint opts, build_requestOptions rt cfg opts)]"
  using assms
  by (auto simp: makeApiRequest_def Let_def loadConfig_def split: sum.splits option.splits if_splits)


lemma makeApiRequest_scripted:
  "makeApiRequest (scripted answer) endpoint no_options
     \<lparr> env = [''CLOUDFLARE_API_KEY'' \<mapsto> ''token''], requests = rs, slept = ss, attempts = as \<rparr> =
   (handle_response (answer (length rs)),
     \<lparr> env = [''CLOUDFLARE_API_KEY'' \<mapsto> ''token''],
       requests = rs @ [(build_url (scripted answer) endpoint no_options,
                         build_requestOptions (scripted answer)
                           \<lparr> apiKey = ''token'', accountId = None, email = None \<rparr> no_options)],
       slept = ss, attempts = as @ [handle_response (answer (length rs))] \<rparr>)"
  by (simp add: makeApiRequest_def loadConfig_def scripted_def Let_def)


lemma sleep_record:
  "sleep ms \<lparr> env = E, requests = rs, slept = ss, attempts = as \<rparr> =
   \<lparr> env = E, requests = rs, slept = ss @ [ms], attempts = as \<rparr>"
  by (simp add: sleep_def)


subsection \<open>The loop, one iteration at a time\<close>

lemma retry_loop_success:
  "int attempt \<le> n \<Longrightarrow> makeApiRequest rt endpoint opts w = (Inr d, w') \<Longrightarrow>
   retry_loop rt endpoint opts n base cap attempt lastError w = (Inr d, w')"
  by (subst retry_loop.simps) simp

lemma retry_loop_client_error:
  "int attempt \<le> n \<Longrightarrow> makeApiRequest rt endpoint opts w = (Inl e, w') \<Longrightarrow> client_error e \<Longrightarrow>
   retry_loop rt endpoint opts n base cap attempt lastError w = (Inl e, w')"
  by (subst retry_loop.simps) simp




subsection \<open>The loop as a whole\<close>



subsection \<open>Claims about the retry loop\<close>

text \<open>
  C1. When a request of the loop fails with a \<open>CloudflareApiError\<close> whose status is at
  least 400, below 500 and not 429, the loop throws this error and the world is the one
  the request left: one more outcome recorded, one more request sent, nothing waited
  for. So a call of \<open>makeApiRequestWithRetry\<close> whose first request fails in this way is
  that one request, whatever number of attempts is configured, as long as it allows the
  first.
\<close>

theorem client_error_is_not_retried:
  assumes "makeApiRequest rt endpoint opts w = (Inl (CloudflareApiError msg sc es), w1)"
      and "400 \<le> sc" and "sc < 500" and "sc \<noteq> 429"
  shows "(1 \<le> maxAttempts_of ropts \<longrightarrow>
            makeApiRequestWithRetry rt endpoint opts ropts w =
              (Inl (CloudflareApiError msg sc es), w1))
       \<and> (int attempt \<le> n \<longrightarrow>
            retry_loop rt endpoint opts n base cap attempt lastError w =
              (Inl (CloudflareApiError msg sc es), w1))
       \<and> attempts w1 = attempts w @ [Inl (CloudflareApiError msg sc es)]
       \<and> length (requests w1) = length (requests w) + 1
       \<and> slept w1 = slept w"
proof -
  have ce: "client_error (CloudflareApiError msg sc es)" using assms(2-4) by simp
  have "retry_loop rt endpoint opts k base' cap' a le w = (Inl (CloudflareApiError msg sc es), w1)"
    if "int a \<le> k" for k base' cap' a le
    using that assms(1) ce by (rule retry_loop_client_error)
  moreover from makeApiRequest_sent[OF assms(1)]
  have "length (requests w1) = length (requests w) + 1" by auto
  ultimately show ?thesis
    using makeApiRequest_world[OF assms(1)] by (simp add: makeApiRequestWithRetry_def)
qed

theorem client_error_is_not_retried_witness:
  "makeApiRequestWithRetry (scripted not_found) ''/zones/z1'' no_options
     \<lparr> maxAttempts = Some 5, baseDelay = None, maxDelay = None \<rparr> fresh_world
   = (Inl (CloudflareApiError ''API request failed: Not Found'' 404 []),
      snd (makeApiRequest (scripted not_found) ''/zones/z1'' no_options fresh_world))
   \<and> retry_loop (scripted not_found) ''/zones/z1'' no_options 3 1000 10000 2
        (Some (Error ''Network error: fetch failed'')) fresh_world
   = (Inl (CloudflareApiError ''API request failed: Not Found'' 404 []),
      snd (makeApiRequest (scripted not_found) ''/zones/z1'' no_options fresh_world))
   \<and> attempts (snd (makeApiRequest (scripted not_found) ''/zones/z1'' no_options fresh_world))
       = [Inl (CloudflareApiError ''API request failed: Not Found'' 404 [])]
   \<and> length (requests (snd (makeApiRequest (scripted not_found) ''/zones/z1'' no_options fresh_world)))
       = 1
   \<and> slept (snd (makeApiRequest (scripted not_found) ''/zones/z1'' no_options fresh_world)) = []"
  using client_error_is_not_retried[of "scripted not_found" "''/zones/z1''" no_options fresh_world
          "''API request failed: Not Found''" 404 "[]"
          "snd (makeApiRequest (scripted not_found) ''/zones/z1'' no_options fresh_world)"
          "\<lparr> maxAttempts = Some 5, baseDelay = None, maxDelay = None \<rparr>"
          2 3 1000 10000 "Some (Error ''Network error: fetch failed'')"]
  by (simp add: fresh_world_def makeApiRequest_scripted handle_response_def not_found_def
        json_reply_def failure_body_def ok_def maxAttempts_of_def)



text \<open>
  C3. At whatever attempt the loop stands, when the request of that attempt succeeds the
  loop returns its result and the world is the one the request left: no further request
  and no further wait. In particular a call of \<open>makeApiRequestWithRetry\<close> whose first
  request succeeds is that one request.
\<close>

theorem success_ends_the_loop:
  assumes "makeApiRequest rt endpoint opts w = (Inr data, w1)"
  shows "(int attempt \<le> n \<longrightarrow>
            retry_loop rt endpoint opts n base cap attempt lastError w = (Inr data, w1))
       \<and> (1 \<le> maxAttempts_of ropts \<longrightarrow>
            makeApiRequestWithRetry rt endpoint opts ropts w = (Inr data, w1))
       \<and> attempts w1 = attempts w @ [Inr data]
       \<and> length (requests w1) = length (requests w) + 1
       \<and> slept w1 = slept w"
proof -
  from makeApiRequest_sent[OF assms]
  have "length (requests w1) = length (requests w) + 1" by auto
  then show ?thesis
    using assms makeApiRequest_world[OF assms]
    by (auto simp: makeApiRequestWithRetry_def retry_loop_success)
qed

theorem success_ends_the_loop_witness:
  "makeApiRequestWithRetry (scripted always_zones) ''/zones'' no_options
     \<lparr> maxAttempts = None, baseDelay = None, maxDelay = None \<rparr> fresh_world
   = (Inr (success_body (JArr [JObj [(''id'', JStr ''z1'')]])),
      snd (makeApiRequest (scripted always_zones) ''/zones'' no_options fresh_world))
   \<and> retry_loop (scripted always_zones) ''/zones'' no_options 3 1000 10000 2
        (Some (Error ''Network error: fetch failed'')) fresh_world
   = (Inr (success_body (JArr [JObj [(''id'', JStr ''z1'')]])),
      snd (makeApiRequest (scripted always_zones) ''/zones'' no_options fresh_world))
   \<and> attempts (snd (makeApiRequest (scripted always_zones) ''/zones'' no_options fresh_world))
       = [Inr (success_body (JArr [JObj [(''id'', JStr ''z1'')]]))]
   \<and> slept (snd (makeApiRequest (scripted always_zones) ''/zones'' no_options fresh_world)) = []"
  using success_ends_the_loop[of "scripted always_zones" "''/zones''" no_options fresh_world
          "success_body (JArr [JObj [(''id'', JStr ''z1'')]])"
          "snd (makeApiRequest (scripted always_zones) ''/zones'' no_options fresh_world)"
          2 3 1000 10000 "Some (Error ''Network error: fetch failed'')"
          "\<lparr> maxAttempts = None, baseDelay = None, maxDelay = None \<rparr>"]
  by (simp add: fresh_world_def makeApiRequest_scripted handle_response_def always_zones_def
        json_reply_def success_body_def ok_def maxAttempts_of_def)

subsection \<open>Claims about one request\<close>






subsection \<open>Claims about the message for the user\<close>

lemma foldl_append_lines:
  "foldl (\<lambda>acc e. acc @ f e) a es = a @ concat (map f es)"
  by (induction es arbitrary: a) simp_all

lemma api_errors_listing_eq:
  "api_errors_listing msg es =
     msg @ (if es = [] then [] else ''\<newline>\<newline>API Errors:'' @ concat (map (\<lambda>e. ''\<newline>  - '' @ message e) es))"
  by (simp add: api_errors_listing_def foldl_append_lines)

lemma sublist_concat_member:
  "x \<in> set xs \<Longrightarrow> sublist (f x) (concat (map (\<lambda>e. p @ f e) xs))"
proof (induction xs)
  case Nil
  then show ?case by simp
next
  case (Cons a xs)
  show ?case
  proof (cases "x = a")
    case True
    have "sublist (f a) (p @ f a @ concat (map (\<lambda>e. p @ f e) xs))"
      unfolding sublist_def by blast
    with True show ?thesis by simp
  next
    case False
    with Cons have "sublist (f x) (concat (map (\<lambda>e. p @ f e) xs))" by simp
    then have "sublist (f x) ((p @ f a) @ concat (map (\<lambda>e. p @ f e) xs))"
      by (rule sublist_order.order.trans) (rule sublist_append_leftI)
    then show ?thesis by simp
  qed
qed

lemma api_errors_listing_mentions:
  assumes "e \<in> set es"
  shows "sublist (message e) (api_errors_listing msg es)"
proof -
  from assms have ne: "es \<noteq> []" by auto
  have "sublist (message e) (concat (map (\<lambda>e. ''\<newline>  - '' @ message e) es))"
    using assms by (rule sublist_concat_member)
  then have "sublist (message e)
               ((msg @ ''\<newline>\<newline>API Errors:'') @ concat (map (\<lambda>e. ''\<newline>  - '' @ message e) es))"
    by (rule sublist_order.order.trans) (rule sublist_append_leftI)
  then show ?thesis using ne by (simp add: api_errors_listing_eq)
qed

lemma guidance_wording:
  "sublist ''CLOUDFLARE_API_KEY'' auth_guidance"
  "sublist ''Rate limit exceeded'' rate_limit_guidance"
  "sublist ''Resource not found'' not_found_guidance"
  "sublist ''temporary issue'' server_error_guidance"
proof -
  show "sublist ''CLOUDFLARE_API_KEY'' auth_guidance"
    unfolding sublist_def auth_guidance_def
    by (rule exI[of _ "''Authentication failed. Your API key may be invalid or lack required permissions.\<newline>\<newline>Solutions:\<newline>1. Verify ''"],
        rule exI[of _ "'' in .env is correct\<newline>2. Run: node scripts/validate-api-key.js\<newline>3. Update token permissions at: https://dash.cloudflare.com/profile/api-tokens''"]) simp
  show "sublist ''Rate limit exceeded'' rate_limit_guidance"
    unfolding sublist_def rate_limit_guidance_def
    by (rule exI[of _ "[]"],
        rule exI[of _ "''. Too many requests to Cloudflare API.\<newline>\<newline>Solution: Wait a moment and try again. The script will retry automatically.''"]) simp
  show "sublist ''Resource not found'' not_found_guidance"
    unfolding sublist_def not_found_guidance_def
    by (rule exI[of _ "[]"],
        rule exI[of _ "''. The requested resource may not exist or may have been deleted.\<newline>\<newline>Solution: Verify the resource name/ID and try again.''"]) simp
  show "sublist ''temporary issue'' server_error_guidance"
    unfolding sublist_def server_error_guidance_def
    by (rule exI[of _ "''Cloudflare API server error. This is a ''"],
        rule exI[of _ "'' on Cloudflare's side.\<newline>\<newline>Solution: Wait a moment and try again.''"]) simp
qed

text \<open>
  C6. \<open>getUserMessage\<close> is a function of the error's message, status and errors alone.
  Status 401 or 403 gives the guidance that names the credential, 429 the guidance on
  the rate limit, 404 the guidance on a resource not found, 500 or more the guidance on
  a temporary server error, and every other status gives the message itself followed,
  when there are errors, by a heading and one line with the message of each of them. The
  conditions exclude each other, so the order of the tests decides nothing more.
\<close>

theorem getUserMessage_mapping:
  "(statusCode = 401 \<or> statusCode = 403 \<longrightarrow>
      getUserMessage msg statusCode es = auth_guidance
      \<and> sublist ''CLOUDFLARE_API_KEY'' (getUserMessage msg statusCode es))
 \<and> (statusCode = 429 \<longrightarrow>
      getUserMessage msg statusCode es = rate_limit_guidance
      \<and> sublist ''Rate limit exceeded'' (getUserMessage msg statusCode es))
 \<and> (statusCode = 404 \<longrightarrow>
      getUserMessage msg statusCode es = not_found_guidance
      \<and> sublist ''Resource not found'' (getUserMessage msg statusCode es))
 \<and> (statusCode \<ge> 500 \<longrightarrow>
      getUserMessage msg statusCode es = server_error_guidance
      \<and> sublist ''temporary issue'' (getUserMessage msg statusCode es))
 \<and> (statusCode \<noteq> 401 \<and> statusCode \<noteq> 403 \<and> statusCode \<noteq> 429 \<and> statusCode \<noteq> 404 \<and> statusCode < 500 \<longrightarrow>
      getUserMessage msg statusCode es =
        msg @ (if es = [] then []
               else ''\<newline>\<newline>API Errors:'' @ concat (map (\<lambda>e. ''\<newline>  - '' @ message e) es))
      \<and> prefix msg (getUserMessage msg statusCode es)
      \<and> (\<forall>e \<in> set es. sublist (message e) (getUserMessage msg statusCode es)))"
proof (intro conjI impI)
  assume d: "statusCode \<noteq> 401 \<and> statusCode \<noteq> 403 \<and> statusCode \<noteq> 429 \<and> statusCode \<noteq> 404 \<and> statusCode < 500"
  then have g: "getUserMessage msg statusCode es = api_errors_listing msg es" by simp
  show "getUserMessage msg statusCode es =
        msg @ (if es = [] then []
               else ''\<newline>\<newline>API Errors:'' @ concat (map (\<lambda>e. ''\<newline>  - '' @ message e) es))"
    unfolding g by (rule api_errors_listing_eq)
  then show "prefix msg (getUserMessage msg statusCode es)" by simp
  show "\<forall>e \<in> set es. sublist (message e) (getUserMessage msg statusCode es)"
    unfolding g by (blast intro: api_errors_listing_mentions)
qed (auto simp: guidance_wording)

theorem getUserMessage_mapping_witness:
  "getUserMessage ''API request failed: Unauthorized'' 401 [] = auth_guidance
 \<and> getUserMessage ''API request failed: Too Many Requests'' 429 [] = rate_limit_guidance
 \<and> getUserMessage ''API request failed: Not Found'' 404 [] = not_found_guidance
 \<and> getUserMessage ''API request failed: Bad Gateway'' 502 [] = server_error_guidance
 \<and> getUserMessage ''API returned success: false'' 200
      [\<lparr> code = 1003, message = ''Invalid zone'' \<rparr>, \<lparr> code = 7003, message = ''No route'' \<rparr>]
    = ''API returned success: false\<newline>\<newline>API Errors:\<newline>  - Invalid zone\<newline>  - No route''"
  using getUserMessage_mapping[of 401 "''API request failed: Unauthorized''" "[]"]
        getUserMessage_mapping[of 429 "''API request failed: Too Many Requests''" "[]"]
        getUserMessage_mapping[of 404 "''API request failed: Not Found''" "[]"]
        getUserMessage_mapping[of 502 "''API request failed: Bad Gateway''" "[]"]
        getUserMessage_mapping[of 200 "''API returned success: false''"
          "[\<lparr> code = 1003, message = ''Invalid zone'' \<rparr>, \<lparr> code = 7003, message = ''No route'' \<rparr>]"]
  by simp

subsection \<open>Claim about the configuration\<close>

text \<open>
  C7. \<open>loadConfig\<close> throws exactly when \<open>CLOUDFLARE_API_KEY\<close> is unset or empty, and
  what it throws is the error with the message on the missing key; otherwise it returns
  the key as it is, with \<open>CLOUDFLARE_ACCOUNT_ID\<close> and \<open>CLOUDFLARE_EMAIL\<close> as they are
  in the environment.
\<close>

theorem loadConfig_needs_the_key:
  "(isl (loadConfig environ) \<longleftrightarrow>
      environ ''CLOUDFLARE_API_KEY'' = None \<or> environ ''CLOUDFLARE_API_KEY'' = Some [])
 \<and> (\<forall>e. loadConfig environ = Inl e \<longrightarrow> e = Error missing_key_message)
 \<and> (\<forall>k. environ ''CLOUDFLARE_API_KEY'' = Some k \<and> k \<noteq> [] \<longrightarrow>
        loadConfig environ = Inr \<lparr> apiKey = k,
                                    accountId = environ ''CLOUDFLARE_ACCOUNT_ID'',
                                    email = environ ''CLOUDFLARE_EMAIL'' \<rparr>)"
  by (auto simp: loadConfig_def split: option.splits)

theorem loadConfig_needs_the_key_witness:
  "loadConfig Map.empty = Inl (Error missing_key_message)
 \<and> loadConfig [''CLOUDFLARE_API_KEY'' \<mapsto> []] = Inl (Error missing_key_message)
 \<and> loadConfig [''CLOUDFLARE_API_KEY'' \<mapsto> ''token'', ''CLOUDFLARE_ACCOUNT_ID'' \<mapsto> ''acc1'']
     = Inr \<lparr> apiKey = ''token'', accountId = Some ''acc1'', email = None \<rparr>"
proof -
  have "isl (loadConfig Map.empty)"
    using loadConfig_needs_the_key[of Map.empty] by simp
  moreover have "isl (loadConfig [''CLOUDFLARE_API_KEY'' \<mapsto> []])"
    using loadConfig_needs_the_key[of "[''CLOUDFLARE_API_KEY'' \<mapsto> []]"] by simp
  ultimately show ?thesis
    using loadConfig_needs_the_key[of Map.empty]
          loadConfig_needs_the_key[of "[''CLOUDFLARE_API_KEY'' \<mapsto> []]"]
          loadConfig_needs_the_key[of "[''CLOUDFLARE_API_KEY'' \<mapsto> ''token'', ''CLOUDFLARE_ACCOUNT_ID'' \<mapsto> ''acc1'']"]
    by (auto simp: isl_def)
qed

subsection \<open>Claims about the loop as a whole\<close>



text \<open>
  The scenario of two replies 429 and then a success: three requests, waits of 1000 and
  2000 milliseconds, and the third reply returned.
\<close>

lemma scenario_rate_limited_twice:
  "fst (makeApiRequestWithRetry (scripted rate_limited_twice) ''/zones'' no_options
          \<lparr> maxAttempts = None, baseDelay = None, maxDelay = None \<rparr> fresh_world)
     = Inr (success_body (JArr []))
   \<and> length (requests (snd (makeApiRequestWithRetry (scripted rate_limited_twice) ''/zones'' no_options
          \<lparr> maxAttempts = None, baseDelay = None, maxDelay = None \<rparr> fresh_world))) = 3
   \<and> slept (snd (makeApiRequestWithRetry (scripted rate_limited_twice) ''/zones'' no_options
          \<lparr> maxAttempts = None, baseDelay = None, maxDelay = None \<rparr> fresh_world)) = [1000, 2000]"
  by (simp add: makeApiRequestWithRetry_def maxAttempts_of_def baseDelay_of_def maxDelay_of_def
        retry_loop.simps fresh_world_def makeApiRequest_scripted sleep_record handle_response_def
        rate_limited_twice_def json_reply_def failure_body_def success_body_def ok_def
        backoff_delay_def throw_lastError_def)



subsection \<open>Claim about the request body\<close>

text \<open>
  C10. The request that \<open>makeApiRequest\<close> hands to \<open>fetch\<close> has a body only when
  \<open>body\<close> is truthy and the method is not \<open>GET\<close>: none for a falsy body such as the
  empty string, the string itself for a string that is not empty, and
  \<open>JSON.stringify(body)\<close> for every other truthy value.
\<close>

theorem body_is_attached_when_truthy_and_not_GET:
  assumes "loadConfig (env w) = Inr cfg"
  shows "\<exists>ro. requests (snd (makeApiRequest rt endpoint opts w)) =
                 requests w @ [(build_url rt endpoint opts, ro)]
           \<and> (\<not> truthy (body opts) \<or> http_method opts = None \<or> http_method opts = Some ''GET'' \<longrightarrow>
                 req_body ro = None)
           \<and> (\<forall>m. http_method opts = Some m \<and> m \<noteq> ''GET'' \<and> body opts = JStr [] \<longrightarrow> req_body ro = None)
           \<and> (\<forall>m s. http_method opts = Some m \<and> m \<noteq> ''GET'' \<and> body opts = JStr s \<and> s \<noteq> [] \<longrightarrow>
                 req_body ro = Some s)
           \<and> (\<forall>m. http_method opts = Some m \<and> m \<noteq> ''GET'' \<and> truthy (body opts)
                    \<and> (\<forall>s. body opts \<noteq> JStr s) \<longrightarrow>
                 req_body ro = Some (JSON_stringify rt (body opts)))"
  using assms
  by (intro exI[of _ "build_requestOptions rt cfg opts"])
     (auto simp: makeApiRequest_def build_requestOptions_def Let_def split: jsval.splits option.splits)

theorem body_is_attached_when_truthy_and_not_GET_witness:
  "map (req_body \<circ> snd) (requests (snd (makeApiRequest (scripted unavailable) ''/kv'' (with_body ''PUT'' (JStr [])) fresh_world)))
     = [None]
 \<and> map (req_body \<circ> snd) (requests (snd (makeApiRequest (scripted unavailable) ''/kv'' (with_body ''PUT'' (JStr ''v1'')) fresh_world)))
     = [Some ''v1'']
 \<and> map (req_body \<circ> snd) (requests (snd (makeApiRequest (scripted unavailable) ''/kv'' (with_body ''PUT'' (JArr [])) fresh_world)))
     = [Some ''<json>'']
 \<and> map (req_body \<circ> snd) (requests (snd (makeApiRequest (scripted unavailable) ''/kv'' (with_body ''GET'' (JStr ''v1'')) fresh_world)))
     = [None]
 \<and> map (req_body \<circ> snd) (requests (snd (makeApiRequest (scripted unavailable) ''/kv'' (with_body ''POST'' (JNum 0)) fresh_world)))
     = [None]"
proof -
  have cfg: "loadConfig (env fresh_world) = Inr \<lparr> apiKey = ''token'', accountId = None, email = None \<rparr>"
    by (simp add: fresh_world_def loadConfig_def)
  have e: "requests fresh_world = []" by (simp add: fresh_world_def)
  note t = body_is_attached_when_truthy_and_not_GET[OF cfg, of "scripted unavailable" "''/kv''"]
  from t[of "with_body ''PUT'' (JStr [])"] t[of "with_body ''PUT'' (JStr ''v1'')"]
       t[of "with_body ''PUT'' (JArr [])"] t[of "with_body ''GET'' (JStr ''v1'')"]
       t[of "with_body ''POST'' (JNum 0)"]
  show ?thesis
    by (auto simp: with_body_def e scripted_def)
qed

end
